theory Spec2Isabelle
  imports Main
begin

section \<open>JavaScript values and regular expression objects\<close>

text \<open>
  The Guardrails engine of \<^verbatim>\<open>Guardrails.js\<close> is modelled by explicit state passing.
  A JavaScript string is a \<^typ>\<open>string\<close>, one character per code unit (code units below
  256). An exception is the \<open>Inl\<close> branch of a sum; the two kinds the engine can run into
  are the \<^verbatim>\<open>SyntaxError\<close> of \<^verbatim>\<open>new RegExp\<close> on a malformed source and the
  \<^verbatim>\<open>TypeError\<close> of a member access on \<^verbatim>\<open>null\<close>/\<^verbatim>\<open>undefined\<close> or of a call of a
  missing method.
\<close>

datatype js_error = SyntaxError | TypeError

text \<open>The argument of \<^verbatim>\<open>validateInput\<close>: any value, of which only a string is accepted.\<close>

datatype js_value = JString string | JNumber int | JBoolean bool | JNull | JUndefined | JObject

text \<open>
  A compiled pattern, as the matcher of the language definition: tried at one index of
  the subject, it fails or gives the number of characters matched and the capture groups
  (\<open>None\<close> for a group that did not take part).
\<close>

type_synonym matcher = "string \<Rightarrow> nat \<Rightarrow> (nat \<times> string option list) option"

text \<open>
  A \<^verbatim>\<open>RegExp\<close> object. \<open>lastIndex\<close> is its one mutable property: \<^verbatim>\<open>test\<close> and
  \<^verbatim>\<open>exec\<close> read and write it when the flags contain \<^verbatim>\<open>g\<close> or \<^verbatim>\<open>y\<close>.
\<close>

record regexp =
  source :: string
  flags :: string
  matcher :: matcher
  lastIndex :: nat

definition global :: "regexp \<Rightarrow> bool" where
  "global r = (CHR ''g'' \<in> set (flags r))"

definition sticky :: "regexp \<Rightarrow> bool" where
  "sticky r = (CHR ''y'' \<in> set (flags r))"

text \<open>
  The search loop of \<^verbatim>\<open>RegExpBuiltinExec\<close> for a pattern that is not sticky: the
  matcher is tried at \<open>i\<close>, \<open>i + 1\<close>, ... up to the length of the subject. The result is
  the index of the match, its length and its captures.
\<close>

function regexp_search :: "matcher \<Rightarrow> string \<Rightarrow> nat \<Rightarrow> (nat \<times> nat \<times> string option list) option" where
  "regexp_search m s i =
     (if length s < i then None
      else case m s i of
             Some (n, caps) \<Rightarrow> Some (i, n, caps)
           | None \<Rightarrow> regexp_search m s (Suc i))"
  by pat_completeness auto
termination
  by (relation "measure (\<lambda>(m, s, i). Suc (length s) - i)") auto

declare regexp_search.simps [simp del]

text \<open>One attempt of \<open>r\<close> from index \<open>i\<close>: anchored at \<open>i\<close> when sticky, a search otherwise.\<close>

definition regexp_find :: "regexp \<Rightarrow> string \<Rightarrow> nat \<Rightarrow> (nat \<times> nat \<times> string option list) option" where
  "regexp_find r s i =
     (if length s < i then None
      else if sticky r then
        (case matcher r s i of None \<Rightarrow> None | Some (n, caps) \<Rightarrow> Some (i, n, caps))
      else regexp_search (matcher r) s i)"

text \<open>
  \<^verbatim>\<open>RegExpBuiltinExec\<close>. The search starts at \<open>lastIndex\<close> when the object is global or
  sticky, at 0 otherwise. A global or sticky object has \<open>lastIndex\<close> moved to the end of
  the match on success and reset to 0 on failure; any other object is left as it is. The
  result is the match array (the matched text, then the captures), or \<open>None\<close> for
  \<^verbatim>\<open>null\<close>.
\<close>

definition regexp_exec :: "regexp \<Rightarrow> string \<Rightarrow> string option list option \<times> regexp" where
  "regexp_exec r s =
     (let stateful = (global r \<or> sticky r);
          start = (if stateful then lastIndex r else 0)
      in case regexp_find r s start of
           None \<Rightarrow> (None, if stateful then r\<lparr>lastIndex := 0\<rparr> else r)
         | Some (j, n, caps) \<Rightarrow>
             (Some (Some (take n (drop j s)) # caps),
              if stateful then r\<lparr>lastIndex := j + n\<rparr> else r))"

text \<open>\<^verbatim>\<open>regex.test(content)\<close>: whether \<^verbatim>\<open>exec\<close> finds a match.\<close>

definition regexp_test :: "regexp \<Rightarrow> string \<Rightarrow> bool \<times> regexp" where
  "regexp_test r s = (case regexp_exec r s of (res, r') \<Rightarrow> (res \<noteq> None, r'))"

text \<open>
  The loop of \<^verbatim>\<open>RegExp.prototype[Symbol.match]\<close> for a global object, on indices: every
  match from \<open>i\<close> on is collected, and after an empty match the index moves one further.
\<close>

function match_from :: "regexp \<Rightarrow> string \<Rightarrow> nat \<Rightarrow> string list" where
  "match_from r s i =
     (case regexp_find r s i of
        None \<Rightarrow> []
      | Some (j, n, caps) \<Rightarrow>
          (let hit = take n (drop j s)
           in hit # match_from r s (if hit = [] then Suc (j + n) else j + n)))"
  by pat_completeness auto

lemma regexp_search_bounds:
  "regexp_search m s i = Some (j, n, caps) \<Longrightarrow> i \<le> j \<and> j \<le> length s"
proof (induction m s i rule: regexp_search.induct)
  case (1 m s i)
  show ?case
  proof (cases "length s < i")
    case True
    with "1.prems" show ?thesis by (simp add: regexp_search.simps)
  next
    case False
    show ?thesis
    proof (cases "m s i")
      case None
      with False "1.prems" have "regexp_search m s (Suc i) = Some (j, n, caps)"
        by (simp add: regexp_search.simps [of m s i])
      with "1.IH" False None show ?thesis by fastforce
    next
      case (Some a)
      with False "1.prems" show ?thesis
        by (cases a) (simp add: regexp_search.simps [of m s i])
    qed
  qed
qed

lemma regexp_find_bounds:
  "regexp_find r s i = Some (j, n, caps) \<Longrightarrow> i \<le> j \<and> j \<le> length s"
  by (auto simp: regexp_find_def split: if_splits option.splits dest: regexp_search_bounds)

termination match_from
proof (relation "measure (\<lambda>(r, s, i). Suc (length s) - i)", goal_cases)
  case 1
  show ?case by simp
next
  case (2 r s i x2 j y n caps hit)
  then have "regexp_find r s i = Some (j, n, caps)" by simp
  from regexp_find_bounds [OF this] have b: "i \<le> j" "j \<le> length s" by simp_all
  have "hit = [] \<or> 0 < n" using 2 by auto
  with b show ?case by auto
qed

declare match_from.simps [simp del]

text \<open>
  \<^verbatim>\<open>content.match(regex)\<close> for a \<^verbatim>\<open>RegExp\<close> object: a global object has
  \<open>lastIndex\<close> set to 0, collects all matches and ends with \<open>lastIndex\<close> 0 again; any
  other object gives the array of one \<^verbatim>\<open>exec\<close>.
\<close>

definition regexp_match :: "regexp \<Rightarrow> string \<Rightarrow> string option list option \<times> regexp" where
  "regexp_match r s =
     (if global r then
        (let ms = match_from r s 0
         in (if ms = [] then None else Some (map Some ms), r\<lparr>lastIndex := 0\<rparr>))
      else regexp_exec r s)"


section \<open>Patterns\<close>

text \<open>
  A configured pattern is a string, compiled where the engine uses it, or a \<^verbatim>\<open>RegExp\<close>
  object. A \<^verbatim>\<open>RegExp\<close> object is held by the list that names it, with its
  \<open>lastIndex\<close>; an object shared by two lists is modelled as two objects.
\<close>

datatype pattern = PString string | PRegExp regexp

text \<open>
  \<^verbatim>\<open>new RegExp(source, flags)\<close> belongs to the host, so it is a parameter of the model:
  \<open>None\<close> is the \<^verbatim>\<open>SyntaxError\<close> of a malformed source.
\<close>

type_synonym compiler = "string \<Rightarrow> string \<Rightarrow> matcher option"

definition new_RegExp :: "compiler \<Rightarrow> string \<Rightarrow> string \<Rightarrow> js_error + regexp" where
  "new_RegExp cmp src fl =
     (case cmp src fl of
        None \<Rightarrow> Inl SyntaxError
      | Some m \<Rightarrow> Inr \<lparr>source = src, flags = fl, matcher = m, lastIndex = 0\<rparr>)"

text \<open>\<^verbatim>\<open>pattern.toString()\<close>.\<close>

fun toString :: "pattern \<Rightarrow> string" where
  "toString (PString src) = src"
| "toString (PRegExp r) = ''/'' @ source r @ ''/'' @ flags r"

subsection \<open>The built-in patterns\<close>

text \<open>
  The two literals of the constructor have the shape \<^verbatim>\<open>/\b(w1|...|wn)\b/gi\<close> with words
  of ASCII letters. \<open>word_alternation\<close> is the matcher of that shape: a word boundary, the
  first alternative that matches without regard to case and is followed by a word
  boundary, and the matched text as capture group 1. (\<open>CHR 0x5C\<close> is the backslash of
  the source text.)
\<close>

definition is_word_char :: "char \<Rightarrow> bool" where
  "is_word_char c =
     (let n = (of_char c :: nat)
      in (48 \<le> n \<and> n \<le> 57) \<or> (65 \<le> n \<and> n \<le> 90) \<or> n = 95 \<or> (97 \<le> n \<and> n \<le> 122))"

definition word_boundary :: "string \<Rightarrow> nat \<Rightarrow> bool" where
  "word_boundary s i =
     ((0 < i \<and> i \<le> length s \<and> is_word_char (s ! (i - 1)))
        \<noteq> (i < length s \<and> is_word_char (s ! i)))"

text \<open>
  Case folding of the \<^verbatim>\<open>i\<close> flag, on ASCII letters. A code unit from 128 on never
  folds to an ASCII one, so against the ASCII words of the built-in patterns this is the
  comparison the host makes.
\<close>

definition canonicalize :: "char \<Rightarrow> char" where
  "canonicalize c =
     (let n = (of_char c :: nat) in if 97 \<le> n \<and> n \<le> 122 then char_of (n - 32) else c)"

text \<open>
  Whether the rest of the subject, from the index tried, starts with the characters of a
  literal: they are compared one by one, after case folding under the flag \<^verbatim>\<open>i\<close>.
\<close>

fun literal_at :: "bool \<Rightarrow> string \<Rightarrow> string \<Rightarrow> bool" where
  "literal_at ignoreCase [] rest = True"
| "literal_at ignoreCase (c # w) [] = False"
| "literal_at ignoreCase (c # w) (d # rest) =
     (if (if ignoreCase then canonicalize d = canonicalize c else d = c)
      then literal_at ignoreCase w rest
      else False)"

fun alternatives :: "string list \<Rightarrow> string \<Rightarrow> nat \<Rightarrow> (nat \<times> string option list) option" where
  "alternatives [] s i = None"
| "alternatives (w # ws) s i =
     (if literal_at True w (drop i s) then
        if word_boundary s (i + length w)
        then Some (length w, [Some (take (length w) (drop i s))])
        else alternatives ws s i
      else alternatives ws s i)"

definition word_alternation :: "string list \<Rightarrow> matcher" where
  "word_alternation ws s i = (if word_boundary s i then alternatives ws s i else None)"

definition default_profanity :: regexp where
  "default_profanity =
     \<lparr>source = CHR 0x5C # ''b(fuck|shit|damn|hell|bitch|asshole)'' @ CHR 0x5C # ''b'', flags = ''gi'',
      matcher = word_alternation [''fuck'', ''shit'', ''damn'', ''hell'', ''bitch'', ''asshole''],
      lastIndex = 0\<rparr>"

definition default_harmful :: regexp where
  "default_harmful =
     \<lparr>source = CHR 0x5C # ''b(kill|murder|suicide|bomb|terrorist|violence)'' @ CHR 0x5C # ''b'', flags = ''gi'',
      matcher = word_alternation
        [''kill'', ''murder'', ''suicide'', ''bomb'', ''terrorist'', ''violence''],
      lastIndex = 0\<rparr>"

section \<open>Policies\<close>

text \<open>
  A policy predicate is called with the content and the context, and its outcome depends
  on nothing else. It returns a boolean or a result object, or throws an \<^verbatim>\<open>Error\<close>
  with a message.
\<close>

record policy_result =
  passed :: bool
  result_reason :: "string option"
  result_code :: "string option"

datatype outcome = Returns_boolean bool | Returns_result policy_result | Throws string

type_synonym predicate = "string \<Rightarrow> string \<Rightarrow> outcome"

text \<open>
  A configured policy value: a function (with its \<^verbatim>\<open>name\<close> property), an object
  (with its \<^verbatim>\<open>name\<close> and \<^verbatim>\<open>reason\<close> when they are strings, and its \<^verbatim>\<open>check\<close>
  member when that is a function), another primitive value (a number, a string, a
  boolean), or \<^verbatim>\<open>null\<close>/\<^verbatim>\<open>undefined\<close>.
\<close>

datatype policy =
    PolicyFunction string predicate
  | PolicyObject "string option" "string option" "predicate option"
  | PolicyPrimitive
  | PolicyNullish

section \<open>Configuration and construction\<close>

record config =
  maxMessageLength :: int
  minMessageLength :: int
  enableContentFilter :: bool
  blockedPatterns :: "pattern list"
  allowedPatterns :: "pattern list option"
  enableProfanityFilter :: bool
  enableOutputModeration :: bool
  maxResponseLength :: int
  policies :: "policy list"
  logViolations :: bool
  violationAction :: string

text \<open>The engine instance: \<^verbatim>\<open>this.config\<close> and the two pattern sets beside it.\<close>

record guardrails =
  config :: config
  profanityPatterns :: "pattern list"
  harmfulPatterns :: "pattern list"

text \<open>
  The \<^verbatim>\<open>options\<close> object of the constructor and of \<^verbatim>\<open>configure\<close>: \<open>None\<close> is a
  field that the object does not name. \<^verbatim>\<open>allowedPatterns\<close> may be named with the value
  \<^verbatim>\<open>null\<close>.
\<close>

record options =
  opt_maxMessageLength :: "int option"
  opt_minMessageLength :: "int option"
  opt_enableContentFilter :: "bool option"
  opt_blockedPatterns :: "pattern list option"
  opt_allowedPatterns :: "pattern list option option"
  opt_enableProfanityFilter :: "bool option"
  opt_enableOutputModeration :: "bool option"
  opt_maxResponseLength :: "int option"
  opt_policies :: "policy list option"
  opt_logViolations :: "bool option"
  opt_violationAction :: "string option"
  opt_profanityPatterns :: "pattern list option"
  opt_harmfulPatterns :: "pattern list option"

definition no_options :: options where
  "no_options =
     \<lparr>opt_maxMessageLength = None, opt_minMessageLength = None,
      opt_enableContentFilter = None, opt_blockedPatterns = None, opt_allowedPatterns = None,
      opt_enableProfanityFilter = None, opt_enableOutputModeration = None,
      opt_maxResponseLength = None, opt_policies = None, opt_logViolations = None,
      opt_violationAction = None, opt_profanityPatterns = None, opt_harmfulPatterns = None\<rparr>"

text \<open>\<^verbatim>\<open>x || d\<close> on a number and on a string: 0 and the empty string are falsy.\<close>

definition or_number :: "int option \<Rightarrow> int \<Rightarrow> int" where
  "or_number x d = (case x of None \<Rightarrow> d | Some n \<Rightarrow> if n = 0 then d else n)"

definition or_string :: "string option \<Rightarrow> string \<Rightarrow> string" where
  "or_string x d = (case x of None \<Rightarrow> d | Some s \<Rightarrow> if s = [] then d else s)"

text \<open>\<^verbatim>\<open>x !== false\<close> on a field that is absent or a boolean.\<close>

definition not_false :: "bool option \<Rightarrow> bool" where
  "not_false x = (x \<noteq> Some False)"

text \<open>\<^verbatim>\<open>x || d\<close> on a field that is absent or an array: every array is truthy.\<close>

definition or_array :: "'a list option \<Rightarrow> 'a list \<Rightarrow> 'a list" where
  "or_array x d = (case x of None \<Rightarrow> d | Some xs \<Rightarrow> xs)"

text \<open>
  \<^verbatim>\<open>{ ...c, ...options }\<close>: every field that \<open>options\<close> names replaces the field of
  \<open>c\<close>.
\<close>

definition spread :: "config \<Rightarrow> options \<Rightarrow> config" where
  "spread c opts =
     \<lparr>maxMessageLength = (case opt_maxMessageLength opts of None \<Rightarrow> maxMessageLength c | Some v \<Rightarrow> v),
      minMessageLength = (case opt_minMessageLength opts of None \<Rightarrow> minMessageLength c | Some v \<Rightarrow> v),
      enableContentFilter = (case opt_enableContentFilter opts of None \<Rightarrow> enableContentFilter c | Some v \<Rightarrow> v),
      blockedPatterns = (case opt_blockedPatterns opts of None \<Rightarrow> blockedPatterns c | Some v \<Rightarrow> v),
      allowedPatterns = (case opt_allowedPatterns opts of None \<Rightarrow> allowedPatterns c | Some v \<Rightarrow> v),
      enableProfanityFilter = (case opt_enableProfanityFilter opts of None \<Rightarrow> enableProfanityFilter c | Some v \<Rightarrow> v),
      enableOutputModeration = (case opt_enableOutputModeration opts of None \<Rightarrow> enableOutputModeration c | Some v \<Rightarrow> v),
      maxResponseLength = (case opt_maxResponseLength opts of None \<Rightarrow> maxResponseLength c | Some v \<Rightarrow> v),
      policies = (case opt_policies opts of None \<Rightarrow> policies c | Some v \<Rightarrow> v),
      logViolations = (case opt_logViolations opts of None \<Rightarrow> logViolations c | Some v \<Rightarrow> v),
      violationAction = (case opt_violationAction opts of None \<Rightarrow> violationAction c | Some v \<Rightarrow> v)\<rparr>"

text \<open>
  The constructor: the object literal with its defaults, then the spread of \<open>options\<close>
  over it, then the two pattern sets. It compiles no pattern and has no failing path.
\<close>

definition constructor :: "options \<Rightarrow> guardrails" where
  "constructor opts =
     \<lparr>config = spread
        \<lparr>maxMessageLength = or_number (opt_maxMessageLength opts) 10000,
         minMessageLength = or_number (opt_minMessageLength opts) 1,
         enableContentFilter = not_false (opt_enableContentFilter opts),
         blockedPatterns = or_array (opt_blockedPatterns opts) [],
         allowedPatterns = (case opt_allowedPatterns opts of None \<Rightarrow> None | Some v \<Rightarrow> v),
         enableProfanityFilter = not_false (opt_enableProfanityFilter opts),
         enableOutputModeration = not_false (opt_enableOutputModeration opts),
         maxResponseLength = or_number (opt_maxResponseLength opts) 50000,
         policies = or_array (opt_policies opts) [],
         logViolations = not_false (opt_logViolations opts),
         violationAction = or_string (opt_violationAction opts) ''reject''\<rparr> opts,
      profanityPatterns = or_array (opt_profanityPatterns opts) [PRegExp default_profanity],
      harmfulPatterns = or_array (opt_harmfulPatterns opts) [PRegExp default_harmful]\<rparr>"

text \<open>
  \<^verbatim>\<open>configure(options)\<close>: the spread of \<open>options\<close> over the live configuration, and
  the replacement of a pattern set that \<open>options\<close> names.
\<close>

definition configure :: "options \<Rightarrow> guardrails \<Rightarrow> guardrails" where
  "configure opts g =
     (let g1 = g\<lparr>config := spread (config g) opts\<rparr>;
          g2 = (case opt_profanityPatterns opts of
                  None \<Rightarrow> g1
                | Some ps \<Rightarrow> g1\<lparr>profanityPatterns := ps\<rparr>)
      in case opt_harmfulPatterns opts of
           None \<Rightarrow> g2
         | Some ps \<Rightarrow> g2\<lparr>harmfulPatterns := ps\<rparr>)"


section \<open>The checks\<close>

subsection \<open>Numbers in messages\<close>

text \<open>
  A template literal prints an integer in decimal, with a minus sign when negative. (This
  is what the host prints for every integer below \<open>10^21\<close> in size.)
\<close>

definition digit :: "nat \<Rightarrow> char" where
  "digit d = char_of (48 + d)"

fun decimal :: "nat \<Rightarrow> string" where
  "decimal n = (if n < 10 then [digit n] else decimal (n div 10) @ [digit (n mod 10)])"

declare decimal.simps [simp del]

definition number_text :: "int \<Rightarrow> string" where
  "number_text k = (if 0 \<le> k then decimal (nat k) else CHR ''-'' # decimal (nat (- k)))"

subsection \<open>\<^verbatim>\<open>validateInput\<close>\<close>

text \<open>
  \<^verbatim>\<open>String.prototype.trim\<close> removes white space and line terminators at both ends; below
  256 these are the code units 9 to 13, 32 and 160.
\<close>

definition is_white_space :: "char \<Rightarrow> bool" where
  "is_white_space c = ((of_char c :: nat) \<in> {9, 10, 11, 12, 13, 32, 160})"

definition trim :: "string \<Rightarrow> string" where
  "trim s = rev (dropWhile is_white_space (rev (dropWhile is_white_space s)))"

definition is_string :: "js_value \<Rightarrow> bool" where
  "is_string v = (case v of JString s \<Rightarrow> True | _ \<Rightarrow> False)"

text \<open>The text of a string value (the other values never reach a use of it).\<close>

definition text_of :: "js_value \<Rightarrow> string" where
  "text_of v = (case v of JString s \<Rightarrow> s | _ \<Rightarrow> [])"

text \<open>The result object \<^verbatim>\<open>{ valid, reason, code }\<close>.\<close>

datatype validation = Valid | Invalid string string

definition validateInput :: "config \<Rightarrow> js_value \<Rightarrow> validation" where
  "validateInput c message =
     (if \<not> is_string message then Invalid ''Message must be a string'' ''INVALID_TYPE''
      else if int (length (text_of message)) < minMessageLength c then
        Invalid (''Message too short. Minimum length: '' @ number_text (minMessageLength c))
          ''MESSAGE_TOO_SHORT''
      else if maxMessageLength c < int (length (text_of message)) then
        Invalid (''Message too long. Maximum length: '' @ number_text (maxMessageLength c))
          ''MESSAGE_TOO_LONG''
      else if trim (text_of message) = [] then
        Invalid ''Message cannot be empty'' ''EMPTY_MESSAGE''
      else Valid)"

subsection \<open>\<^verbatim>\<open>checkBlockedPatterns\<close>\<close>

text \<open>
  The test of a blocked or an allowed pattern: a string is compiled with the flags
  \<^verbatim>\<open>gi\<close> into an object of its own, a \<^verbatim>\<open>RegExp\<close> object is used as it is, and
  \<^verbatim>\<open>test\<close> is called on the result. The pattern comes back as the test left it.
\<close>

fun test_pattern :: "compiler \<Rightarrow> pattern \<Rightarrow> string \<Rightarrow> (js_error + bool) \<times> pattern" where
  "test_pattern cmp (PString src) content =
     (case new_RegExp cmp src ''gi'' of
        Inl e \<Rightarrow> (Inl e, PString src)
      | Inr r \<Rightarrow> (Inr (fst (regexp_test r content)), PString src))"
| "test_pattern cmp (PRegExp r) content =
     (case regexp_test r content of (b, r') \<Rightarrow> (Inr b, PRegExp r'))"

text \<open>
  A loop over a pattern list that leaves at the first pattern whose test succeeds (the
  \<^verbatim>\<open>for\<close> loops with a \<^verbatim>\<open>return\<close>, and \<^verbatim>\<open>Array.prototype.some\<close>). The result is
  that pattern, or \<open>None\<close> when the list is exhausted; an exception of a test leaves the
  loop at once.
\<close>

fun first_match ::
  "(pattern \<Rightarrow> string \<Rightarrow> (js_error + bool) \<times> pattern) \<Rightarrow> pattern list \<Rightarrow> string
     \<Rightarrow> (js_error + pattern option) \<times> pattern list" where
  "first_match t [] content = (Inr None, [])"
| "first_match t (p # ps) content =
     (case t p content of
        (Inl e, p') \<Rightarrow> (Inl e, p' # ps)
      | (Inr b, p') \<Rightarrow>
          if b then (Inr (Some p), p' # ps)
          else (case first_match t ps content of (res, ps') \<Rightarrow> (res, p' # ps')))"

text \<open>The result object \<^verbatim>\<open>{ blocked, pattern, reason, code }\<close>.\<close>

datatype blocked_check = Not_blocked | Blocked "string option" string string

definition set_blockedPatterns :: "pattern list \<Rightarrow> guardrails \<Rightarrow> guardrails" where
  "set_blockedPatterns ps g = g\<lparr>config := (config g)\<lparr>blockedPatterns := ps\<rparr>\<rparr>"

definition set_allowedPatterns :: "pattern list \<Rightarrow> guardrails \<Rightarrow> guardrails" where
  "set_allowedPatterns ps g = g\<lparr>config := (config g)\<lparr>allowedPatterns := Some ps\<rparr>\<rparr>"

definition checkBlockedPatterns ::
  "compiler \<Rightarrow> guardrails \<Rightarrow> string \<Rightarrow> (js_error + blocked_check) \<times> guardrails" where
  "checkBlockedPatterns cmp g content =
     (if \<not> enableContentFilter (config g) then (Inr Not_blocked, g)
      else case first_match (test_pattern cmp) (blockedPatterns (config g)) content of
             (Inl e, bs) \<Rightarrow> (Inl e, set_blockedPatterns bs g)
           | (Inr (Some p), bs) \<Rightarrow>
               (Inr (Blocked (Some (toString p)) ''Content matches blocked pattern''
                       ''BLOCKED_PATTERN''),
                set_blockedPatterns bs g)
           | (Inr None, bs) \<Rightarrow>
               (let g1 = set_blockedPatterns bs g
                in case allowedPatterns (config g1) of
                     None \<Rightarrow> (Inr Not_blocked, g1)
                   | Some aps \<Rightarrow>
                       if aps = [] then (Inr Not_blocked, g1)
                       else case first_match (test_pattern cmp) aps content of
                              (Inl e, aps') \<Rightarrow> (Inl e, set_allowedPatterns aps' g1)
                            | (Inr matchesAny, aps') \<Rightarrow>
                                if matchesAny = None then
                                  (Inr (Blocked None
                                          ''Content does not match any allowed pattern''
                                          ''NOT_ALLOWED_PATTERN''),
                                   set_allowedPatterns aps' g1)
                                else (Inr Not_blocked, set_allowedPatterns aps' g1)))"

subsection \<open>\<^verbatim>\<open>checkProfanity\<close>\<close>

text \<open>
  \<^verbatim>\<open>content.match(pattern)\<close>: a string is compiled without flags into an object of its
  own, a \<^verbatim>\<open>RegExp\<close> object is used as it is.
\<close>

fun match_pattern ::
  "compiler \<Rightarrow> pattern \<Rightarrow> string \<Rightarrow> (js_error + string option list option) \<times> pattern" where
  "match_pattern cmp (PString src) content =
     (case new_RegExp cmp src [] of
        Inl e \<Rightarrow> (Inl e, PString src)
      | Inr r \<Rightarrow> (Inr (fst (regexp_match r content)), PString src))"
| "match_pattern cmp (PRegExp r) content =
     (case regexp_match r content of (res, r') \<Rightarrow> (Inr res, PRegExp r'))"

text \<open>
  The loop that pushes the match array of every pattern onto the accumulator (an entry is
  \<open>None\<close> for the \<^verbatim>\<open>undefined\<close> of a capture group that did not take part).
\<close>

fun collect_matches ::
  "compiler \<Rightarrow> pattern list \<Rightarrow> string \<Rightarrow> string option list
     \<Rightarrow> (js_error + string option list) \<times> pattern list" where
  "collect_matches cmp [] content acc = (Inr acc, [])"
| "collect_matches cmp (p # ps) content acc =
     (case match_pattern cmp p content of
        (Inl e, p') \<Rightarrow> (Inl e, p' # ps)
      | (Inr res, p') \<Rightarrow>
          (case collect_matches cmp ps content
                  (case res of None \<Rightarrow> acc | Some found \<Rightarrow> acc @ found) of
             (r, ps') \<Rightarrow> (r, p' # ps')))"

text \<open>\<^verbatim>\<open>[...new Set(xs)]\<close>: the first occurrence of every element, in order.\<close>

definition new_Set :: "'a list \<Rightarrow> 'a list" where
  "new_Set xs = rev (remdups (rev xs))"

text \<open>The result object \<^verbatim>\<open>{ hasProfanity, matches, reason, code }\<close>.\<close>

datatype profanity_check = No_profanity | Has_profanity "string option list" string string

definition checkProfanity ::
  "compiler \<Rightarrow> guardrails \<Rightarrow> string \<Rightarrow> (js_error + profanity_check) \<times> guardrails" where
  "checkProfanity cmp g content =
     (if \<not> enableProfanityFilter (config g) then (Inr No_profanity, g)
      else case collect_matches cmp (profanityPatterns g) content [] of
             (Inl e, ps) \<Rightarrow> (Inl e, g\<lparr>profanityPatterns := ps\<rparr>)
           | (Inr found, ps) \<Rightarrow>
               (if found \<noteq> [] then
                  Inr (Has_profanity (new_Set found) ''Content contains profanity''
                         ''PROFANITY_DETECTED'')
                else Inr No_profanity,
                g\<lparr>profanityPatterns := ps\<rparr>))"

subsection \<open>\<^verbatim>\<open>checkHarmfulContent\<close>\<close>

text \<open>
  \<^verbatim>\<open>pattern.test(content)\<close> on the pattern itself: a string has no \<^verbatim>\<open>test\<close> method.
\<close>

fun test_method :: "pattern \<Rightarrow> string \<Rightarrow> (js_error + bool) \<times> pattern" where
  "test_method (PString src) content = (Inl TypeError, PString src)"
| "test_method (PRegExp r) content =
     (case regexp_test r content of (b, r') \<Rightarrow> (Inr b, PRegExp r'))"

text \<open>The result object \<^verbatim>\<open>{ isHarmful, reason, code }\<close>.\<close>

datatype harmful_check = Not_harmful | Harmful string string

definition checkHarmfulContent ::
  "guardrails \<Rightarrow> string \<Rightarrow> (js_error + harmful_check) \<times> guardrails" where
  "checkHarmfulContent g content =
     (if \<not> enableContentFilter (config g) then (Inr Not_harmful, g)
      else case first_match test_method (harmfulPatterns g) content of
             (Inl e, hs) \<Rightarrow> (Inl e, g\<lparr>harmfulPatterns := hs\<rparr>)
           | (Inr (Some p), hs) \<Rightarrow>
               (Inr (Harmful ''Content may contain harmful or violent language''
                       ''HARMFUL_CONTENT''),
                g\<lparr>harmfulPatterns := hs\<rparr>)
           | (Inr None, hs) \<Rightarrow> (Inr Not_harmful, g\<lparr>harmfulPatterns := hs\<rparr>))"


subsection \<open>\<^verbatim>\<open>applyPolicies\<close>\<close>

text \<open>
  \<^verbatim>\<open>_evaluatePolicy\<close>. A function, or the \<^verbatim>\<open>check\<close> member of an object, is called
  inside \<^verbatim>\<open>try\<close>; the read of \<^verbatim>\<open>policy.check\<close> is outside of it, and on
  \<^verbatim>\<open>null\<close> or \<^verbatim>\<open>undefined\<close> that read throws.
\<close>

fun evaluatePolicy :: "policy \<Rightarrow> string \<Rightarrow> string \<Rightarrow> js_error + policy_result" where
  "evaluatePolicy (PolicyFunction name f) content context =
     (case f content context of
        Returns_boolean b \<Rightarrow>
          Inr \<lparr>passed = b,
               result_reason = (if b then None else Some ''Policy check failed''),
               result_code = None\<rparr>
      | Returns_result r \<Rightarrow> Inr r
      | Throws message \<Rightarrow>
          Inr \<lparr>passed = False, result_reason = Some (''Policy error: '' @ message),
               result_code = Some ''POLICY_ERROR''\<rparr>)"
| "evaluatePolicy (PolicyObject name rsn (Some f)) content context =
     (case f content context of
        Returns_boolean b \<Rightarrow>
          Inr \<lparr>passed = b,
               result_reason = (if b then None else Some (or_string rsn ''Policy check failed'')),
               result_code = None\<rparr>
      | Returns_result r \<Rightarrow> Inr r
      | Throws message \<Rightarrow>
          Inr \<lparr>passed = False, result_reason = Some (''Policy error: '' @ message),
               result_code = Some ''POLICY_ERROR''\<rparr>)"
| "evaluatePolicy PolicyNullish content context = Inl TypeError"
| "evaluatePolicy other content context =
     Inr \<lparr>passed = True, result_reason = Some ''Invalid policy format'', result_code = None\<rparr>"

text \<open>\<^verbatim>\<open>policy.name\<close>.\<close>

fun name_of :: "policy \<Rightarrow> string option" where
  "name_of (PolicyFunction name f) = Some name"
| "name_of (PolicyObject name rsn chk) = name"
| "name_of other = None"

text \<open>An entry of the \<^verbatim>\<open>violations\<close> array: \<^verbatim>\<open>{ policy, reason, code }\<close>.\<close>

record violation =
  policy_name :: string
  violation_reason :: "string option"
  violation_code :: string

definition violation_of :: "policy \<Rightarrow> policy_result \<Rightarrow> violation" where
  "violation_of p result =
     \<lparr>policy_name = or_string (name_of p) ''unnamed'',
      violation_reason = result_reason result,
      violation_code = or_string (result_code result) ''POLICY_VIOLATION''\<rparr>"

text \<open>The loop over the policies, with the \<^verbatim>\<open>violations\<close> array as accumulator.\<close>

fun evaluate_all ::
  "policy list \<Rightarrow> string \<Rightarrow> string \<Rightarrow> violation list \<Rightarrow> js_error + violation list" where
  "evaluate_all [] content context acc = Inr acc"
| "evaluate_all (p # ps) content context acc =
     (case evaluatePolicy p content context of
        Inl e \<Rightarrow> Inl e
      | Inr result \<Rightarrow>
          evaluate_all ps content context
            (if \<not> passed result then acc @ [violation_of p result] else acc))"

text \<open>The result object \<^verbatim>\<open>{ passed, violations, reason, code }\<close>.\<close>

datatype policies_check = Policies_passed | Policies_failed "violation list" string string

definition applyPolicies :: "config \<Rightarrow> string \<Rightarrow> string \<Rightarrow> js_error + policies_check" where
  "applyPolicies c content context =
     (if policies c = [] then Inr Policies_passed
      else case evaluate_all (policies c) content context [] of
             Inl e \<Rightarrow> Inl e
           | Inr vs \<Rightarrow>
               if vs \<noteq> [] then
                 Inr (Policies_failed vs
                        (''Violated '' @ decimal (length vs) @ '' policy/policies'')
                        ''POLICY_VIOLATION'')
               else Inr Policies_passed)"

section \<open>Moderation\<close>

text \<open>
  The log sink is \<^verbatim>\<open>console.warn\<close>; the log is the list of the records written, each
  with its violation type and the result object of the check. The time stamp of a record
  is left out.
\<close>

datatype details =
    Validation_details validation
  | Blocked_details blocked_check
  | Profanity_details profanity_check
  | Harmful_details harmful_check
  | Policy_details policies_check

type_synonym log = "(string \<times> details) list"

definition logViolation :: "config \<Rightarrow> string \<Rightarrow> details \<Rightarrow> log \<Rightarrow> log" where
  "logViolation c type details lg = (if logViolations c then lg @ [(type, details)] else lg)"

text \<open>The verdict object; \<open>None\<close> is a member that the object does not have.\<close>

record verdict =
  allowed :: bool
  reason :: "string option"
  code :: "string option"
  action :: "string option"
  matches :: "string option list option"
  violations :: "violation list option"

definition allow :: verdict where
  "allow = \<lparr>allowed = True, reason = None, code = None, action = None, matches = None,
            violations = None\<rparr>"

definition deny :: "string \<Rightarrow> string \<Rightarrow> string \<Rightarrow> verdict" where
  "deny rsn cd act =
     \<lparr>allowed = False, reason = Some rsn, code = Some cd, action = Some act, matches = None,
      violations = None\<rparr>"

text \<open>
  The last two stages of \<^verbatim>\<open>moderateInput\<close>, which the profanity stage falls through
  to: the harmful-content check, then the policies.
\<close>

definition harmful_and_policies ::
  "guardrails \<Rightarrow> log \<Rightarrow> string \<Rightarrow> (js_error + verdict) \<times> guardrails \<times> log" where
  "harmful_and_policies g lg message =
     (case checkHarmfulContent g message of
        (Inl e, g1) \<Rightarrow> (Inl e, g1, lg)
      | (Inr (Harmful rsn cd), g1) \<Rightarrow>
          (Inr (deny rsn cd (violationAction (config g1))), g1,
           logViolation (config g1) ''harmful_content'' (Harmful_details (Harmful rsn cd)) lg)
      | (Inr Not_harmful, g1) \<Rightarrow>
          (case applyPolicies (config g1) message ''input'' of
             Inl e \<Rightarrow> (Inl e, g1, lg)
           | Inr (Policies_failed vs rsn cd) \<Rightarrow>
               (Inr ((deny rsn cd (violationAction (config g1)))\<lparr>violations := Some vs\<rparr>),
                g1,
                logViolation (config g1) ''policy_violation''
                  (Policy_details (Policies_failed vs rsn cd)) lg)
           | Inr Policies_passed \<Rightarrow> (Inr allow, g1, lg)))"

text \<open>
  \<^verbatim>\<open>moderateInput\<close>. The result is the verdict or the exception, the engine with its
  \<^verbatim>\<open>RegExp\<close> objects as the checks left them, and the log.
\<close>

definition moderateInput ::
  "compiler \<Rightarrow> guardrails \<Rightarrow> log \<Rightarrow> js_value \<Rightarrow> (js_error + verdict) \<times> guardrails \<times> log" where
  "moderateInput cmp g lg message =
     (case validateInput (config g) message of
        Invalid rsn cd \<Rightarrow>
          (Inr (deny rsn cd (violationAction (config g))), g,
           logViolation (config g) ''input_validation'' (Validation_details (Invalid rsn cd)) lg)
      | Valid \<Rightarrow>
          (case checkBlockedPatterns cmp g (text_of message) of
             (Inl e, g1) \<Rightarrow> (Inl e, g1, lg)
           | (Inr (Blocked pat rsn cd), g1) \<Rightarrow>
               (Inr (deny rsn cd (violationAction (config g1))), g1,
                logViolation (config g1) ''blocked_pattern''
                  (Blocked_details (Blocked pat rsn cd)) lg)
           | (Inr Not_blocked, g1) \<Rightarrow>
               (case checkProfanity cmp g1 (text_of message) of
                  (Inl e, g2) \<Rightarrow> (Inl e, g2, lg)
                | (Inr No_profanity, g2) \<Rightarrow> harmful_and_policies g2 lg (text_of message)
                | (Inr (Has_profanity ms rsn cd), g2) \<Rightarrow>
                    (let lg2 = logViolation (config g2) ''profanity''
                                 (Profanity_details (Has_profanity ms rsn cd)) lg
                     in if violationAction (config g2) = ''reject'' then
                          (Inr ((deny rsn cd (violationAction (config g2)))
                                  \<lparr>matches := Some ms\<rparr>),
                           g2, lg2)
                        else harmful_and_policies g2 lg2 (text_of message)))))"

text \<open>
  \<^verbatim>\<open>moderateOutput\<close>, on a string. The verdict of the length check has no
  \<^verbatim>\<open>action\<close> member, and that branch does not call \<^verbatim>\<open>_logViolation\<close>.
\<close>

definition moderateOutput ::
  "compiler \<Rightarrow> guardrails \<Rightarrow> log \<Rightarrow> string \<Rightarrow> (js_error + verdict) \<times> guardrails \<times> log" where
  "moderateOutput cmp g lg content =
     (if \<not> enableOutputModeration (config g) then (Inr allow, g, lg)
      else if maxResponseLength (config g) < int (length content) then
        (Inr \<lparr>allowed = False,
              reason = Some (''Response too long. Maximum length: ''
                               @ number_text (maxResponseLength (config g))),
              code = Some ''RESPONSE_TOO_LONG'', action = None, matches = None,
              violations = None\<rparr>,
         g, lg)
      else case checkBlockedPatterns cmp g content of
             (Inl e, g1) \<Rightarrow> (Inl e, g1, lg)
           | (Inr (Blocked pat rsn cd), g1) \<Rightarrow>
               (Inr (deny rsn cd (violationAction (config g1))), g1,
                logViolation (config g1) ''output_blocked_pattern''
                  (Blocked_details (Blocked pat rsn cd)) lg)
           | (Inr Not_blocked, g1) \<Rightarrow>
               (case applyPolicies (config g1) content ''output'' of
                  Inl e \<Rightarrow> (Inl e, g1, lg)
                | Inr (Policies_failed vs rsn cd) \<Rightarrow>
                    (Inr ((deny rsn cd (violationAction (config g1)))\<lparr>violations := Some vs\<rparr>),
                     g1,
                     logViolation (config g1) ''output_policy_violation''
                       (Policy_details (Policies_failed vs rsn cd)) lg)
                | Inr Policies_passed \<Rightarrow> (Inr allow, g1, lg)))"


section \<open>Instances for the examples\<close>

text \<open>
  The matcher of a source that is plain text (letters, digits, underscores and spaces):
  the text itself at the index tried, without regard to case under the flag \<^verbatim>\<open>i\<close>, and
  no capture group.
\<close>

definition literal_matcher :: "bool \<Rightarrow> string \<Rightarrow> matcher" where
  "literal_matcher ignoreCase w s i =
     (if literal_at ignoreCase w (drop i s) then Some (length w, []) else None)"

text \<open>The \<^verbatim>\<open>RegExp\<close> object of a literal \<^verbatim>\<open>/src/fl\<close> whose source is plain text.\<close>

definition literal_regexp :: "string \<Rightarrow> string \<Rightarrow> regexp" where
  "literal_regexp src fl =
     \<lparr>source = src, flags = fl, matcher = literal_matcher (CHR ''i'' \<in> set fl) src,
      lastIndex = 0\<rparr>"

text \<open>
  A compiler for the examples. It is the host's on a source that is plain text, and on
  the source \<^verbatim>\<open>(\<close>, an unterminated group, which the host rejects. It rejects every
  other source too; the examples use none.
\<close>

definition sample_compiler :: compiler where
  "sample_compiler src fl =
     (if list_all (\<lambda>c. is_word_char c \<or> c = CHR '' '') src
      then Some (literal_matcher (CHR ''i'' \<in> set fl) src)
      else None)"

text \<open>The \<open>lastIndex\<close> of every \<^verbatim>\<open>RegExp\<close> object of a pattern list.\<close>

fun lastIndexes :: "pattern list \<Rightarrow> nat list" where
  "lastIndexes [] = []"
| "lastIndexes (PString src # ps) = lastIndexes ps"
| "lastIndexes (PRegExp r # ps) = lastIndex r # lastIndexes ps"






text \<open>Engines of the default configuration but for the fields named.\<close>

definition warn_engine :: guardrails where
  "warn_engine = constructor (no_options\<lparr>opt_violationAction := Some ''warn''\<rparr>)"

definition quiet_warn_engine :: guardrails where
  "quiet_warn_engine =
     constructor (no_options\<lparr>opt_violationAction := Some ''warn'',
                              opt_logViolations := Some False\<rparr>)"




text \<open>An engine whose allow list is the one \<^verbatim>\<open>RegExp\<close> object \<^verbatim>\<open>/hello/gi\<close>.\<close>

definition hello_engine :: guardrails where
  "hello_engine =
     constructor
       (no_options\<lparr>opt_allowedPatterns := Some (Some [PRegExp (literal_regexp ''hello'' ''gi'')])\<rparr>)"

section \<open>Notions used in the statements\<close>




text \<open>
  A text matches a \<^verbatim>\<open>RegExp\<close> object when a search from the start of the text finds a
  match. The object is at rest when \<^verbatim>\<open>test\<close> searches from the start: its
  \<open>lastIndex\<close> is 0, or it is neither global nor sticky.
\<close>

definition finds :: "regexp \<Rightarrow> string \<Rightarrow> bool" where
  "finds r s = (regexp_find r s 0 \<noteq> None)"

definition at_rest :: "regexp \<Rightarrow> bool" where
  "at_rest r = (lastIndex r = 0 \<or> \<not> (global r \<or> sticky r))"


text \<open>
  A text matches a configured pattern of the pattern filter when it matches the
  \<^verbatim>\<open>RegExp\<close> object, or the string compiled with the flags \<^verbatim>\<open>gi\<close>. The test of a
  pattern does not depend on earlier calls when the pattern is a string that compiles or
  an object at rest.
\<close>

definition matches_pattern :: "compiler \<Rightarrow> string \<Rightarrow> pattern \<Rightarrow> bool" where
  "matches_pattern cmp s p =
     (case p of
        PRegExp r \<Rightarrow> finds r s
      | PString src \<Rightarrow>
          (case cmp src ''gi'' of None \<Rightarrow> False | Some m \<Rightarrow> regexp_search m s 0 \<noteq> None))"

definition stateless :: "compiler \<Rightarrow> pattern \<Rightarrow> bool" where
  "stateless cmp p =
     (case p of PRegExp r \<Rightarrow> at_rest r | PString src \<Rightarrow> cmp src ''gi'' \<noteq> None)"

section \<open>Facts about the checks\<close>


text \<open>What each check leaves untouched in the engine.\<close>

lemma checkBlockedPatterns_frame:
  assumes "checkBlockedPatterns cmp g s = (res, g1)"
  shows "profanityPatterns g1 = profanityPatterns g"
    and "harmfulPatterns g1 = harmfulPatterns g"
    and "violationAction (config g1) = violationAction (config g)"
    and "logViolations (config g1) = logViolations (config g)"
    and "policies (config g1) = policies (config g)"
    and "enableContentFilter (config g1) = enableContentFilter (config g)"
    and "enableProfanityFilter (config g1) = enableProfanityFilter (config g)"
  using assms
  by (auto simp: checkBlockedPatterns_def set_blockedPatterns_def set_allowedPatterns_def Let_def
      split: if_splits prod.splits sum.splits option.splits)

lemma checkProfanity_frame:
  assumes "checkProfanity cmp g s = (res, g2)"
  shows "config g2 = config g" and "harmfulPatterns g2 = harmfulPatterns g"
  using assms
  by (auto simp: checkProfanity_def split: if_splits prod.splits sum.splits)

lemma checkHarmfulContent_frame:
  assumes "checkHarmfulContent g s = (res, g3)"
  shows "config g3 = config g" and "profanityPatterns g3 = profanityPatterns g"
  using assms
  by (auto simp: checkHarmfulContent_def split: if_splits prod.splits sum.splits option.splits)

lemma applyPolicies_config:
  "policies c' = policies c \<Longrightarrow> applyPolicies c' s ctx = applyPolicies c s ctx"
  by (simp add: applyPolicies_def)

text \<open>What a hit of the profanity check carries.\<close>

lemma checkProfanity_hit:
  assumes "checkProfanity cmp g s = (Inr (Has_profanity ms rsn cd), g2)"
  shows "rsn = ''Content contains profanity'' \<and> cd = ''PROFANITY_DETECTED''
         \<and> (\<exists>found ps. collect_matches cmp (profanityPatterns g) s [] = (Inr found, ps)
               \<and> found \<noteq> [] \<and> ms = new_Set found)"
  using assms
  by (auto simp: checkProfanity_def split: if_splits prod.splits sum.splits)

text \<open>\<^verbatim>\<open>test\<close> on an object at rest says whether the text matches.\<close>

lemma regexp_test_at_rest:
  "at_rest r \<Longrightarrow> fst (regexp_test r s) = finds r s"
  by (auto simp: at_rest_def finds_def regexp_test_def regexp_exec_def Let_def
      split: option.splits prod.splits)








lemma new_Set_distinct: "distinct (new_Set xs)"
  by (simp add: new_Set_def)


section \<open>Repeated calls\<close>

text \<open>
  Claim C1: for a fixed configuration and a fixed input text, two successive calls of
  \<^verbatim>\<open>moderateInput\<close> on the same engine return the same verdict; in particular a text
  that matches a harmful pattern is denied with \<^verbatim>\<open>HARMFUL_CONTENT\<close> both times.

  The code does otherwise. On the engine of the default configuration the first call with
  the text \<^verbatim>\<open>kill\<close> denies with \<^verbatim>\<open>HARMFUL_CONTENT\<close> and leaves the built-in harmful
  pattern, a global \<^verbatim>\<open>RegExp\<close> object, with \<open>lastIndex = 4\<close>; the second call
  searches from there, finds nothing and allows the same text.
\<close>

theorem moderateInput_second_call_differs:
  "(case moderateInput cmp (constructor no_options) [] (JString ''kill'') of
      (v1, g1, lg1) \<Rightarrow>
        v1 = Inr (deny ''Content may contain harmful or violent language'' ''HARMFUL_CONTENT''
                    ''reject'')
        \<and> lastIndexes (harmfulPatterns g1) = [4]
        \<and> fst (moderateInput cmp g1 lg1 (JString ''kill'')) = Inr allow)"
  by code_simp

section \<open>Logging of denials\<close>

text \<open>
  Claim C4: whenever \<^verbatim>\<open>logViolations\<close> is true, every denial of \<^verbatim>\<open>moderateInput\<close> and
  \<^verbatim>\<open>moderateOutput\<close> writes a violation record, the denial with code
  \<^verbatim>\<open>RESPONSE_TOO_LONG\<close> included.

  The code does otherwise on that one path. With \<^verbatim>\<open>maxResponseLength = 5\<close> and
  \<^verbatim>\<open>logViolations\<close> true, \<^verbatim>\<open>moderateOutput\<close> denies a response of eight characters
  with \<^verbatim>\<open>RESPONSE_TOO_LONG\<close> and the log stays empty.
\<close>

theorem moderateOutput_too_long_not_logged:
  "logViolations (config (constructor (no_options\<lparr>opt_maxResponseLength := Some 5\<rparr>)))
   \<and> (case moderateOutput cmp (constructor (no_options\<lparr>opt_maxResponseLength := Some 5\<rparr>)) []
             ''too long'' of
        (v, g', lg) \<Rightarrow>
          v = Inr \<lparr>allowed = False, reason = Some ''Response too long. Maximum length: 5'',
                   code = Some ''RESPONSE_TOO_LONG'', action = None, matches = None,
                   violations = None\<rparr>
          \<and> lg = [])"
  by code_simp

section \<open>Malformed policies\<close>

text \<open>
  Claim C10: a configured policy value that is neither a function nor an object with a
  \<^verbatim>\<open>check\<close> function evaluates to \<^verbatim>\<open>passed: true\<close>, so it adds no violation and
  never makes \<^verbatim>\<open>moderateInput\<close> or \<^verbatim>\<open>moderateOutput\<close> deny.

  The code does so for an object without a \<^verbatim>\<open>check\<close> function and for a number, a
  string or a boolean, but not for \<^verbatim>\<open>null\<close> and \<^verbatim>\<open>undefined\<close>: there the read of
  \<^verbatim>\<open>policy.check\<close> throws, outside of any \<^verbatim>\<open>try\<close>, and the exception leaves
  \<^verbatim>\<open>applyPolicies\<close> and the moderation call.
\<close>

theorem nullish_policy_throws:
  "evaluatePolicy PolicyNullish ''hello'' ''input'' = Inl TypeError
   \<and> fst (moderateInput cmp (constructor (no_options\<lparr>opt_policies := Some [PolicyNullish]\<rparr>)) []
            (JString ''hello'')) = Inl TypeError
   \<and> fst (moderateOutput cmp (constructor (no_options\<lparr>opt_policies := Some [PolicyNullish]\<rparr>)) []
            ''hello'') = Inl TypeError"
  by code_simp

text \<open>The malformed policies that the fallback does reach.\<close>

lemma invalid_policy_format_passes:
  "evaluatePolicy (PolicyObject name rsn None) content context
     = Inr \<lparr>passed = True, result_reason = Some ''Invalid policy format'', result_code = None\<rparr>"
  "evaluatePolicy PolicyPrimitive content context
     = Inr \<lparr>passed = True, result_reason = Some ''Invalid policy format'', result_code = None\<rparr>"
  by simp_all

section \<open>Order of the validator\<close>



section \<open>Errors of policy predicates\<close>



section \<open>The configuration update\<close>

text \<open>
  Claim C9: \<^verbatim>\<open>configure(partial)\<close> is a shallow merge into the live configuration.
  Every field that the partial names has the new value afterwards, every field that it
  does not name keeps its value, and a \<^verbatim>\<open>profanityPatterns\<close> or
  \<^verbatim>\<open>harmfulPatterns\<close> of the partial replaces the pattern set that the checks use
  (it is not appended to it).
\<close>

theorem configure_shallow_merge:
  "maxMessageLength (config (configure opts g))
     = (case opt_maxMessageLength opts of None \<Rightarrow> maxMessageLength (config g) | Some v \<Rightarrow> v)
   \<and> minMessageLength (config (configure opts g))
     = (case opt_minMessageLength opts of None \<Rightarrow> minMessageLength (config g) | Some v \<Rightarrow> v)
   \<and> enableContentFilter (config (configure opts g))
     = (case opt_enableContentFilter opts of
          None \<Rightarrow> enableContentFilter (config g) | Some v \<Rightarrow> v)
   \<and> blockedPatterns (config (configure opts g))
     = (case opt_blockedPatterns opts of None \<Rightarrow> blockedPatterns (config g) | Some v \<Rightarrow> v)
   \<and> allowedPatterns (config (configure opts g))
     = (case opt_allowedPatterns opts of None \<Rightarrow> allowedPatterns (config g) | Some v \<Rightarrow> v)
   \<and> enableProfanityFilter (config (configure opts g))
     = (case opt_enableProfanityFilter opts of
          None \<Rightarrow> enableProfanityFilter (config g) | Some v \<Rightarrow> v)
   \<and> enableOutputModeration (config (configure opts g))
     = (case opt_enableOutputModeration opts of
          None \<Rightarrow> enableOutputModeration (config g) | Some v \<Rightarrow> v)
   \<and> maxResponseLength (config (configure opts g))
     = (case opt_maxResponseLength opts of None \<Rightarrow> maxResponseLength (config g) | Some v \<Rightarrow> v)
   \<and> policies (config (configure opts g))
     = (case opt_policies opts of None \<Rightarrow> policies (config g) | Some v \<Rightarrow> v)
   \<and> logViolations (config (configure opts g))
     = (case opt_logViolations opts of None \<Rightarrow> logViolations (config g) | Some v \<Rightarrow> v)
   \<and> violationAction (config (configure opts g))
     = (case opt_violationAction opts of None \<Rightarrow> violationAction (config g) | Some v \<Rightarrow> v)
   \<and> profanityPatterns (configure opts g)
     = (case opt_profanityPatterns opts of None \<Rightarrow> profanityPatterns g | Some ps \<Rightarrow> ps)
   \<and> harmfulPatterns (configure opts g)
     = (case opt_harmfulPatterns opts of None \<Rightarrow> harmfulPatterns g | Some ps \<Rightarrow> ps)"
  by (simp add: configure_def spread_def Let_def split: option.splits)


section \<open>Profanity and the violation action\<close>

text \<open>
  Claim C2: with \<^verbatim>\<open>violationAction\<close> \<^verbatim>\<open>warn\<close> or \<^verbatim>\<open>allow\<close>, an input string
  that matches a profanity pattern and triggers no other check is allowed by
  \<^verbatim>\<open>moderateInput\<close> and a violation is logged; with \<^verbatim>\<open>reject\<close> the same input is
  denied with \<^verbatim>\<open>PROFANITY_DETECTED\<close> and the de-duplicated list of the matches.

  As stated the claim fails where the code has a switch: with \<^verbatim>\<open>logViolations\<close> false
  nothing is logged. Under \<^verbatim>\<open>warn\<close> and \<^verbatim>\<open>logViolations: false\<close> the text
  \<^verbatim>\<open>damn\<close> is a hit of the profanity check and of no other check, it is allowed, and
  the log stays empty.
\<close>

theorem profanity_hit_not_logged:
  "validateInput (config quiet_warn_engine) (JString ''damn'') = Valid
   \<and> fst (checkBlockedPatterns sample_compiler quiet_warn_engine ''damn'') = Inr Not_blocked
   \<and> fst (checkProfanity sample_compiler quiet_warn_engine ''damn'')
       = Inr (Has_profanity [Some ''damn''] ''Content contains profanity'' ''PROFANITY_DETECTED'')
   \<and> fst (checkHarmfulContent quiet_warn_engine ''damn'') = Inr Not_harmful
   \<and> applyPolicies (config quiet_warn_engine) ''damn'' ''input'' = Inr Policies_passed
   \<and> violationAction (config quiet_warn_engine) = ''warn''
   \<and> fst (moderateInput sample_compiler quiet_warn_engine [] (JString ''damn'')) = Inr allow
   \<and> snd (snd (moderateInput sample_compiler quiet_warn_engine [] (JString ''damn''))) = []"
  by code_simp

text \<open>
  Claim C2 as amended: with any \<^verbatim>\<open>violationAction\<close> other than \<^verbatim>\<open>reject\<close>, an
  input string on which the profanity check reports a hit (the filter is on and a
  pattern matches) and which triggers no other check is allowed, and the one
  \<^verbatim>\<open>profanity\<close> record is written when \<^verbatim>\<open>logViolations\<close> is true, none when it is
  false; with \<^verbatim>\<open>reject\<close> the same input is denied with \<^verbatim>\<open>PROFANITY_DETECTED\<close> and
  the matches of all profanity patterns, each listed once, and the record is written
  under the same condition.
\<close>

theorem profanity_conditional_deny:
  assumes "validateInput (config g) message = Valid"
      and "checkBlockedPatterns cmp g (text_of message) = (Inr Not_blocked, g1)"
      and "checkProfanity cmp g1 (text_of message) = (Inr (Has_profanity ms rsn cd), g2)"
      and "checkHarmfulContent g2 (text_of message) = (Inr Not_harmful, g3)"
      and "applyPolicies (config g) (text_of message) ''input'' = Inr Policies_passed"
  shows "moderateInput cmp g lg message
           = (if violationAction (config g) = ''reject''
              then Inr \<lparr>allowed = False, reason = Some ''Content contains profanity'',
                        code = Some ''PROFANITY_DETECTED'', action = Some ''reject'',
                        matches = Some ms, violations = None\<rparr>
              else Inr allow,
              if violationAction (config g) = ''reject'' then g2 else g3,
              if logViolations (config g)
              then lg @ [(''profanity'',
                          Profanity_details
                            (Has_profanity ms ''Content contains profanity''
                               ''PROFANITY_DETECTED''))]
              else lg)
         \<and> distinct ms
         \<and> (\<exists>found ps. collect_matches cmp (profanityPatterns g) (text_of message) []
                            = (Inr found, ps)
                        \<and> ms = new_Set found)"
proof -
  note f1 = checkBlockedPatterns_frame [OF assms(2)]
  note f2 = checkProfanity_frame [OF assms(3)]
  note f3 = checkHarmfulContent_frame [OF assms(4)]
  from checkProfanity_hit [OF assms(3)] obtain found ps where
    hit: "rsn = ''Content contains profanity''" "cd = ''PROFANITY_DETECTED''"
      "collect_matches cmp (profanityPatterns g1) (text_of message) [] = (Inr found, ps)"
      "ms = new_Set found"
    by blast
  have pol: "applyPolicies (config g3) (text_of message) ''input'' = Inr Policies_passed"
    using assms(5) applyPolicies_config [of "config g3" "config g"] f1 f2 f3 by simp
  have rest: "harmful_and_policies g2 lg' (text_of message) = (Inr allow, g3, lg')" for lg'
    using assms(4) pol by (simp add: harmful_and_policies_def)
  have "moderateInput cmp g lg message
           = (if violationAction (config g) = ''reject''
              then Inr \<lparr>allowed = False, reason = Some ''Content contains profanity'',
                        code = Some ''PROFANITY_DETECTED'', action = Some ''reject'',
                        matches = Some ms, violations = None\<rparr>
              else Inr allow,
              if violationAction (config g) = ''reject'' then g2 else g3,
              if logViolations (config g)
              then lg @ [(''profanity'',
                          Profanity_details
                            (Has_profanity ms ''Content contains profanity''
                               ''PROFANITY_DETECTED''))]
              else lg)"
    using assms(1,2,3) hit(1,2) rest f1 f2
    by (simp add: moderateInput_def Let_def logViolation_def deny_def)
  moreover have "distinct ms" using hit(4) by (simp add: new_Set_distinct)
  moreover have "\<exists>found ps. collect_matches cmp (profanityPatterns g) (text_of message) []
                            = (Inr found, ps) \<and> ms = new_Set found"
    using hit(3,4) f1(1) by auto
  ultimately show ?thesis by blast
qed

text \<open>
  The text \<^verbatim>\<open>damn Damn damn\<close> under \<^verbatim>\<open>warn\<close> and under \<^verbatim>\<open>reject\<close>, with the
  default \<^verbatim>\<open>logViolations: true\<close>.
\<close>

theorem profanity_conditional_deny_witness:
  "fst (moderateInput sample_compiler warn_engine [] (JString ''damn Damn damn'')) = Inr allow
   \<and> snd (snd (moderateInput sample_compiler warn_engine [] (JString ''damn Damn damn'')))
       = [(''profanity'',
           Profanity_details
             (Has_profanity [Some ''damn'', Some ''Damn''] ''Content contains profanity''
                ''PROFANITY_DETECTED''))]
   \<and> fst (moderateInput sample_compiler (constructor no_options) []
            (JString ''damn Damn damn''))
       = Inr \<lparr>allowed = False, reason = Some ''Content contains profanity'',
               code = Some ''PROFANITY_DETECTED'', action = Some ''reject'',
               matches = Some [Some ''damn'', Some ''Damn''], violations = None\<rparr>"
proof -
  let ?m = "JString ''damn Damn damn''"
  let ?s = "''damn Damn damn''"
  let ?hit = "Has_profanity [Some ''damn'', Some ''Damn''] ''Content contains profanity''
                ''PROFANITY_DETECTED''"
  have t: "text_of ?m = ?s" by (simp add: text_of_def)
  let ?w1 = "snd (checkBlockedPatterns sample_compiler warn_engine ?s)"
  let ?w2 = "snd (checkProfanity sample_compiler ?w1 ?s)"
  let ?w3 = "snd (checkHarmfulContent ?w2 ?s)"
  have w0: "validateInput (config warn_engine) ?m = Valid" by code_simp
  have "fst (checkBlockedPatterns sample_compiler warn_engine ?s) = Inr Not_blocked"
    by code_simp
  then have w1: "checkBlockedPatterns sample_compiler warn_engine (text_of ?m)
      = (Inr Not_blocked, ?w1)"
    by (simp add: t prod_eq_iff)
  have "fst (checkProfanity sample_compiler ?w1 ?s) = Inr ?hit" by code_simp
  then have w2: "checkProfanity sample_compiler ?w1 (text_of ?m) = (Inr ?hit, ?w2)"
    by (simp add: t prod_eq_iff)
  have "fst (checkHarmfulContent ?w2 ?s) = Inr Not_harmful" by code_simp
  then have w3: "checkHarmfulContent ?w2 (text_of ?m) = (Inr Not_harmful, ?w3)"
    by (simp add: t prod_eq_iff)
  have w4: "applyPolicies (config warn_engine) (text_of ?m) ''input'' = Inr Policies_passed"
    unfolding t by code_simp
  have wc: "violationAction (config warn_engine) = ''warn''" "logViolations (config warn_engine)"
    by code_simp+
  let ?r1 = "snd (checkBlockedPatterns sample_compiler (constructor no_options) ?s)"
  let ?r2 = "snd (checkProfanity sample_compiler ?r1 ?s)"
  let ?r3 = "snd (checkHarmfulContent ?r2 ?s)"
  have r0: "validateInput (config (constructor no_options)) ?m = Valid" by code_simp
  have "fst (checkBlockedPatterns sample_compiler (constructor no_options) ?s) = Inr Not_blocked"
    by code_simp
  then have r1: "checkBlockedPatterns sample_compiler (constructor no_options) (text_of ?m)
      = (Inr Not_blocked, ?r1)"
    by (simp add: t prod_eq_iff)
  have "fst (checkProfanity sample_compiler ?r1 ?s) = Inr ?hit" by code_simp
  then have r2: "checkProfanity sample_compiler ?r1 (text_of ?m) = (Inr ?hit, ?r2)"
    by (simp add: t prod_eq_iff)
  have "fst (checkHarmfulContent ?r2 ?s) = Inr Not_harmful" by code_simp
  then have r3: "checkHarmfulContent ?r2 (text_of ?m) = (Inr Not_harmful, ?r3)"
    by (simp add: t prod_eq_iff)
  have r4: "applyPolicies (config (constructor no_options)) (text_of ?m) ''input''
      = Inr Policies_passed"
    unfolding t by code_simp
  have rc: "violationAction (config (constructor no_options)) = ''reject''"
    by code_simp
  show ?thesis
    using profanity_conditional_deny [OF w0 w1 w2 w3 w4, of "[]"]
      profanity_conditional_deny [OF r0 r1 r2 r3 r4, of "[]"] wc rc
    by simp
qed

section \<open>Harmful content and the violation action\<close>




section \<open>Malformed patterns\<close>




section \<open>The allow list\<close>

text \<open>
  Claim C8: with content filtering on, no blocked pattern matching and a non-empty
  \<^verbatim>\<open>allowedPatterns\<close>, \<^verbatim>\<open>checkBlockedPatterns\<close> blocks with
  \<^verbatim>\<open>NOT_ALLOWED_PATTERN\<close> exactly when the text matches none of the allowed patterns.

  The code does otherwise on a repeated call when an allowed pattern is a global
  \<^verbatim>\<open>RegExp\<close> object. With the allow list \<^verbatim>\<open>[/hello/gi]\<close> the text
  \<^verbatim>\<open>hello world\<close> matches the pattern; the first call lets it pass and leaves the
  object with \<open>lastIndex = 5\<close>, and the second call blocks the same text with
  \<^verbatim>\<open>NOT_ALLOWED_PATTERN\<close>.
\<close>

theorem allowed_text_blocked_on_second_call:
  "enableContentFilter (config hello_engine)
   \<and> blockedPatterns (config hello_engine) = []
   \<and> finds (literal_regexp ''hello'' ''gi'') ''hello world''
   \<and> (case checkBlockedPatterns sample_compiler hello_engine ''hello world'' of
        (r1, g1) \<Rightarrow>
          r1 = Inr Not_blocked
          \<and> map_option lastIndexes (allowedPatterns (config g1)) = Some [5]
          \<and> fst (checkBlockedPatterns sample_compiler g1 ''hello world'')
              = Inr (Blocked None ''Content does not match any allowed pattern''
                       ''NOT_ALLOWED_PATTERN''))"
  by code_simp


text \<open>
  On patterns whose test does not depend on earlier calls (strings that compile, objects
  at rest) the allow list does what the claim says.
\<close>

lemma test_pattern_stateless:
  "stateless cmp p \<Longrightarrow> fst (test_pattern cmp p s) = Inr (matches_pattern cmp s p)"
proof (cases p)
  case (PString src)
  assume "stateless cmp p"
  with PString obtain m where m: "cmp src ''gi'' = Some m" by (auto simp: stateless_def)
  have "fst (regexp_test \<lparr>source = src, flags = ''gi'', matcher = m, lastIndex = 0\<rparr> s)
      = (regexp_search m s 0 \<noteq> None)"
    by (auto simp: regexp_test_def regexp_exec_def regexp_find_def global_def sticky_def Let_def
        split: option.splits prod.splits)
  then show ?thesis using PString m by (simp add: matches_pattern_def new_RegExp_def)
next
  case (PRegExp r)
  assume "stateless cmp p"
  with PRegExp have "at_rest r" by (simp add: stateless_def)
  from regexp_test_at_rest [OF this, of s] show ?thesis using PRegExp
    by (cases "regexp_test r s") (simp add: matches_pattern_def)
qed

lemma first_match_stateless:
  "list_all (stateless cmp) ps \<Longrightarrow>
     \<exists>res ps'. first_match (test_pattern cmp) ps s = (Inr res, ps')
       \<and> (res \<noteq> None) = list_ex (matches_pattern cmp s) ps"
proof (induction ps)
  case Nil
  show ?case by simp
next
  case (Cons p ps)
  then have p: "stateless cmp p" and rest: "list_all (stateless cmp) ps" by simp_all
  from Cons.IH [OF rest] obtain res ps' where
    ih: "first_match (test_pattern cmp) ps s = (Inr res, ps')"
        "(res \<noteq> None) = list_ex (matches_pattern cmp s) ps" by blast
  obtain p' where t: "test_pattern cmp p s = (Inr (matches_pattern cmp s p), p')"
    using test_pattern_stateless [OF p, of s] by (cases "test_pattern cmp p s") auto
  show ?case using ih t by auto
qed

lemma allow_list_of_stateless_patterns:
  assumes "enableContentFilter (config g)"
      and "first_match (test_pattern cmp) (blockedPatterns (config g)) s = (Inr None, bs)"
      and "allowedPatterns (config g) = Some aps"
      and "aps \<noteq> []"
      and "list_all (stateless cmp) aps"
  shows "fst (checkBlockedPatterns cmp g s)
           = Inr (if list_ex (matches_pattern cmp s) aps then Not_blocked
                  else Blocked None ''Content does not match any allowed pattern''
                         ''NOT_ALLOWED_PATTERN'')"
proof -
  from first_match_stateless [OF assms(5), of s] obtain res aps' where
    "first_match (test_pattern cmp) aps s = (Inr res, aps')"
    "(res \<noteq> None) = list_ex (matches_pattern cmp s) aps" by blast
  then show ?thesis using assms(1-4)
    by (auto simp: checkBlockedPatterns_def set_blockedPatterns_def Let_def)
qed

end
